theory Spec2Isabelle
  imports Complex_Main
begin

section \<open>psychopy/app/jobs.py: pipe readers and jobs\<close>

text \<open>
  A shallow embedding of \<^verbatim>\<open>src/psychopy/app/jobs.py\<close>. Mutation is explicit state
  passing, exceptions are \<open>Inl\<close> values of a sum, objects that are shared by reference
  (processes, reader threads) live in a store and are named by their index.
\<close>

subsection \<open>Python values and exceptions\<close>

datatype pyval = PyNone | PyBool bool | PyInt int | PyStr string

datatype error =
    Empty            \<comment> \<open>\<^verbatim>\<open>queue.Empty\<close>\<close>
  | AttributeError
  | TypeError
  | OSError          \<comment> \<open>raised by \<^verbatim>\<open>Popen(...)\<close> or by \<^verbatim>\<open>Popen.terminate()\<close>\<close>

subsection \<open>\<^verbatim>\<open>queue.Queue(maxsize=1)\<close>\<close>

text \<open>
  The queue of a reader holds at most one item, so its content is an \<open>option\<close>.
  \<^verbatim>\<open>get_nowait\<close> raises \<^verbatim>\<open>Empty\<close> on an empty queue; \<^verbatim>\<open>put\<close> on a full
  queue would wait for room, which is the result \<open>None\<close> here.
\<close>

type_synonym queue = "string option"

definition Queue_full :: "queue \<Rightarrow> bool" where
  "Queue_full q = (q \<noteq> None)"

definition Queue_get_nowait :: "queue \<Rightarrow> error + (string \<times> queue)" where
  "Queue_get_nowait q = (case q of None \<Rightarrow> Inl Empty | Some item \<Rightarrow> Inr (item, None))"

definition Queue_put :: "string \<Rightarrow> queue \<Rightarrow> queue option" where
  "Queue_put item q = (if Queue_full q then None else Some (Some item))"

subsection \<open>\<^verbatim>\<open>class PipeReader(Thread)\<close>\<close>

datatype thread_state =
    Initial     \<comment> \<open>constructed, \<^verbatim>\<open>start()\<close> not called\<close>
  | Started     \<comment> \<open>inside the \<^verbatim>\<open>while running\<close> loop of \<^verbatim>\<open>run\<close>\<close>
  | Blocked     \<comment> \<open>waiting inside \<^verbatim>\<open>Queue.put\<close> for room\<close>
  | Finished    \<comment> \<open>\<^verbatim>\<open>run\<close> has returned\<close>

text \<open>
  \<open>fdpipe\<close> names the pipe the reader owns: the standard output or the standard error of
  a process of the store below. \<open>pollSecs\<close> is \<^verbatim>\<open>float(pollMillis) / 1000.\<close>, kept as
  an exact fraction: it is only handed to \<^verbatim>\<open>time.sleep\<close>. \<open>closed\<close> records
  \<^verbatim>\<open>self._fdpipe.close()\<close>.
\<close>

datatype pipe = Stdout nat | Stderr nat

record PipeReader =
  fdpipe :: pipe
  pollSecs :: rat
  queue :: queue
  overflowBuffer :: "string list"
  stopSignal :: bool
  closed :: bool
  thread :: thread_state

definition PipeReader_init :: "pipe \<Rightarrow> int \<Rightarrow> PipeReader" where
  "PipeReader_init fd pollMillis =
     \<lparr> fdpipe = fd,
       pollSecs = of_int pollMillis / 1000,
       queue = None,
       overflowBuffer = [],
       stopSignal = False,
       closed = False,
       thread = Initial \<rparr>"

definition PipeReader_start :: "PipeReader \<Rightarrow> PipeReader" where
  "PipeReader_start r = r\<lparr>thread := Started\<rparr>"

definition isAvailable :: "PipeReader \<Rightarrow> bool" where
  "isAvailable r = Queue_full (queue r)"

text \<open>\<^verbatim>\<open>read\<close>: the value returned and the reader afterwards.\<close>

definition PipeReader_read :: "PipeReader \<Rightarrow> string \<times> PipeReader" where
  "PipeReader_read r =
     (case Queue_get_nowait (queue r) of
        Inr (item, q) \<Rightarrow> (item, r\<lparr>queue := q\<rparr>)
      | Inl e \<Rightarrow> ('''', r))"

definition PipeReader_stop :: "PipeReader \<Rightarrow> PipeReader" where
  "PipeReader_stop r = r\<lparr>stopSignal := True\<rparr>"

text \<open>
  The body of \<^verbatim>\<open>for pipeBytes in iter(self._fdpipe.readline, '')\<close> (lines 128 to 140)
  for one chunk.
\<close>

definition enqueue :: "string \<Rightarrow> PipeReader \<Rightarrow> PipeReader" where
  "enqueue pipeBytes r =
     (if \<not> Queue_full (queue r) then
        (let (pipeBytes', r') =
               (if overflowBuffer r \<noteq> []
                then (concat (overflowBuffer r) @ pipeBytes, r\<lparr>overflowBuffer := []\<rparr>)
                else (pipeBytes, r))
         in case Queue_put pipeBytes' (queue r') of
              Some q \<Rightarrow> r'\<lparr>queue := q\<rparr>
            | None \<Rightarrow> r'\<lparr>thread := Blocked\<rparr>)
      else r\<lparr>overflowBuffer := overflowBuffer r @ [pipeBytes]\<rparr>)"

text \<open>
  \<^verbatim>\<open>run\<close>, driven by the results of \<^verbatim>\<open>self._fdpipe.readline()\<close>. The worker is inside
  a \<^verbatim>\<open>readline\<close> call whenever it is \<open>Started\<close>; \<open>run_readline s\<close> is what it does when
  that call returns \<open>s\<close>. A non-empty \<open>s\<close> is the next item of \<^verbatim>\<open>iter(readline, '')\<close> and
  goes through the loop body. The empty string ends the \<^verbatim>\<open>for\<close> loop; the worker then
  sleeps, tests the stop signal, and either leaves the \<^verbatim>\<open>while\<close> loop and closes the pipe
  or goes round again into the next \<^verbatim>\<open>readline\<close>.
\<close>

definition run_readline :: "string \<Rightarrow> PipeReader \<Rightarrow> PipeReader" where
  "run_readline s r =
     (if thread r \<noteq> Started then r
      else if s \<noteq> '''' then enqueue s r
      else if stopSignal r then r\<lparr>closed := True, thread := Finished\<rparr>
      else r)"

text \<open>
  What happens to one reader, in order: its worker's \<^verbatim>\<open>readline\<close> returns, the consumer
  calls \<^verbatim>\<open>read()\<close>, or some thread calls \<^verbatim>\<open>stop()\<close>. The second component of the
  state lists the values the \<^verbatim>\<open>read()\<close> calls returned so far. One pass of the loop
  body is taken as one step: the reader has one producer (its worker) and one consumer,
  the queue's own operations are atomic, and a \<^verbatim>\<open>read()\<close> that falls between the
  worker's test \<^verbatim>\<open>full()\<close> and its \<^verbatim>\<open>put\<close> or \<^verbatim>\<open>append\<close> leaves the same state as one
  that comes just after the pass. A pipe that stays open and delivers nothing is a
  sequence with no further \<open>Readline\<close>: the worker waits inside \<^verbatim>\<open>readline\<close>.
\<close>

datatype event = Readline string | Read | Stop

fun step :: "PipeReader \<times> string list \<Rightarrow> event \<Rightarrow> PipeReader \<times> string list" where
  "step (r, out) (Readline s) = (run_readline s r, out)"
| "step (r, out) Read = (case PipeReader_read r of (v, r') \<Rightarrow> (r', out @ [v]))"
| "step (r, out) Stop = (PipeReader_stop r, out)"

definition run_events :: "PipeReader \<Rightarrow> event list \<Rightarrow> PipeReader \<times> string list" where
  "run_events r evs = foldl step (r, []) evs"

text \<open>\<open>n\<close> calls of \<^verbatim>\<open>read()\<close> in a row, with nothing in between.\<close>

fun read_times :: "nat \<Rightarrow> PipeReader \<Rightarrow> string list \<times> PipeReader" where
  "read_times 0 r = ([], r)"
| "read_times (Suc n) r =
     (case PipeReader_read r of (v, r') \<Rightarrow>
        (case read_times n r' of (vs, r'') \<Rightarrow> (v # vs, r'')))"

text \<open>
  The text a reader holds and has not handed out yet (the staged chunk, then the overflow
  buffer), and the text a sequence of events takes off the pipe.
\<close>

definition buffered :: "PipeReader \<Rightarrow> string" where
  "buffered r = (case queue r of None \<Rightarrow> '''' | Some chunk \<Rightarrow> chunk) @ concat (overflowBuffer r)"

fun produced :: "event list \<Rightarrow> string" where
  "produced [] = ''''"
| "produced (Readline s # evs) = s @ produced evs"
| "produced (e # evs) = produced evs"

subsection \<open>The collaborators of a job\<close>

text \<open>
  Modelled from the spec: the polling timer (\<^verbatim>\<open>wx.Timer\<close>), which this repository only
  uses. It is running or not, and remembers the interval it was started with.
\<close>

record Timer =
  IsRunning :: bool
  interval :: int

definition Timer_init :: Timer where
  "Timer_init = \<lparr> IsRunning = False, interval = 0 \<rparr>"

definition Timer_Start :: "int \<Rightarrow> Timer \<Rightarrow> Timer" where
  "Timer_Start milliseconds t = \<lparr> IsRunning = True, interval = milliseconds \<rparr>"

definition Timer_Stop :: "Timer \<Rightarrow> Timer" where
  "Timer_Stop t = t\<lparr>IsRunning := False\<rparr>"

text \<open>
  Modelled from the spec: the process handle of the spawn capability
  (\<^verbatim>\<open>subprocess.Popen\<close>), "a non-blocking exit-status query, and a terminate/kill
  operation". \<open>returncode\<close> is the attribute of the handle. Two fields belong to the
  operating system: \<open>exitStatus\<close> is the status of the child once it has exited, and
  \<open>killError\<close> is the exception a kill request would meet. \<open>signalled\<close> records that
  a kill request was delivered. The status query returns at once: it copies the status
  of the system into \<open>returncode\<close> the first time there is one. The kill request is only
  sent while \<open>returncode\<close> is unset.
\<close>

record Popen =
  Popen_pid :: int
  returncode :: "int option"
  exitStatus :: "int option"
  killError :: "error option"
  signalled :: bool

definition Popen_init :: "int \<Rightarrow> Popen" where
  "Popen_init newpid =
     \<lparr> Popen_pid = newpid, returncode = None, exitStatus = None, killError = None,
       signalled = False \<rparr>"

definition Popen_poll :: "Popen \<Rightarrow> int option \<times> Popen" where
  "Popen_poll p =
     (let p' = (if returncode p = None then p\<lparr>returncode := exitStatus p\<rparr> else p)
      in (returncode p', p'))"

definition Popen_terminate :: "Popen \<Rightarrow> error + Popen" where
  "Popen_terminate p =
     (if returncode p \<noteq> None then Inr p
      else case killError p of
             Some e \<Rightarrow> Inl e
           | None \<Rightarrow> Inr (p\<lparr>signalled := True\<rparr>))"

text \<open>
  Modelled from the spec: "deliver C on the host thread" (\<^verbatim>\<open>wx.CallAfter\<close>). A call is
  queued in \<open>pending\<close>; the host loop later runs it. The calls this module queues are
  the three callbacks of the host and the job's own \<^verbatim>\<open>onTerminate\<close>. A callback of the
  host is a name (a number); running it is recorded in \<open>delivered\<close>.
\<close>

type_synonym callback = nat

datatype call =
    CallInput callback string                        \<comment> \<open>\<^verbatim>\<open>_inputCallback(stdinText)\<close>\<close>
  | CallError callback string                        \<comment> \<open>\<^verbatim>\<open>_errorCallback(stderrText)\<close>\<close>
  | CallOnTerminate "int option"                     \<comment> \<open>\<^verbatim>\<open>self.onTerminate(retCode)\<close>\<close>
  | CallTerminate callback "int option" "int option" \<comment> \<open>\<^verbatim>\<open>_terminateCallback(pid, exitCode)\<close>\<close>

text \<open>
  The store: every process spawned and every reader created so far (a reference is the
  index), and the two lists of calls.
\<close>

record world =
  procs :: "Popen list"
  readers :: "PipeReader list"
  pending :: "call list"
  delivered :: "call list"

definition world_init :: world where
  "world_init = \<lparr> procs = [], readers = [], pending = [], delivered = [] \<rparr>"

definition CallAfter :: "call \<Rightarrow> world \<Rightarrow> world" where
  "CallAfter c w = w\<lparr>pending := pending w @ [c]\<rparr>"

text \<open>The child behind process \<open>p\<close> exits with status \<open>code\<close> (an act of the system).\<close>

definition child_exits :: "nat \<Rightarrow> int \<Rightarrow> world \<Rightarrow> world" where
  "child_exits p code w = w\<lparr>procs := (procs w)[p := (procs w ! p)\<lparr>exitStatus := Some code\<rparr>]\<rparr>"

subsection \<open>\<^verbatim>\<open>class Job\<close>\<close>

record Job =
  command :: string
  pid :: "int option"
  flags :: int
  process :: "nat option"
  pollMillis :: "int option"
  pollTimer :: Timer
  env :: "string option"
  inputCallback :: "callback option"
  errorCallback :: "callback option"
  terminateCallback :: "callback option"
  stdoutReader :: "nat option"
  stderrReader :: "nat option"

definition isRunning :: "Job \<Rightarrow> bool" where
  "isRunning j = (pid j \<noteq> Some 0 \<and> process j \<noteq> None)"

text \<open>
  The setters return the outcome (\<open>Inl\<close> an exception) and the job afterwards. A value
  for \<^verbatim>\<open>pollMillis\<close> is any Python value; \<^verbatim>\<open>bool\<close> is a subclass of \<^verbatim>\<open>int\<close>. Floats
  are not among the values here.
\<close>

definition command_setter :: "string \<Rightarrow> Job \<Rightarrow> (error + unit) \<times> Job" where
  "command_setter val j =
     (if isRunning j then (Inl AttributeError, j) else (Inr (), j\<lparr>command := val\<rparr>))"

definition flags_setter :: "int \<Rightarrow> Job \<Rightarrow> (error + unit) \<times> Job" where
  "flags_setter val j =
     (if isRunning j then (Inl AttributeError, j) else (Inr (), j\<lparr>flags := val\<rparr>))"

definition pollMillis_setter :: "pyval \<Rightarrow> Job \<Rightarrow> (error + unit) \<times> Job" where
  "pollMillis_setter val j =
     (case (case val of
              PyInt n \<Rightarrow> Inr (Some n)
            | PyBool b \<Rightarrow> Inr (Some (if b then 1 else 0))
            | PyNone \<Rightarrow> Inr None
            | PyStr s \<Rightarrow> Inl TypeError) of
        Inl e \<Rightarrow> (Inl e, j)
      | Inr v \<Rightarrow>
          (let j1 = j\<lparr>pollMillis := v\<rparr> in
           if \<not> IsRunning (pollTimer j1) then (Inr (), j1)
           else case pollMillis j1 of
                  None \<Rightarrow> (Inr (), j1\<lparr>pollTimer := Timer_Stop (pollTimer j1)\<rparr>)
                | Some ms \<Rightarrow> (Inr (), j1\<lparr>pollTimer := Timer_Start ms (pollTimer j1)\<rparr>)))"

definition Job_init ::
  "string \<Rightarrow> int \<Rightarrow> callback option \<Rightarrow> callback option \<Rightarrow> callback option \<Rightarrow> pyval
     \<Rightarrow> string option \<Rightarrow> error + Job" where
  "Job_init cmd flgs terminateCb inputCb errorCb pollMs environ =
     (let j = \<lparr> command = cmd, pid = None, flags = flgs, process = None, pollMillis = None,
                pollTimer = Timer_init, env = environ,
                inputCallback = inputCb, errorCallback = errorCb,
                terminateCallback = terminateCb,
                stdoutReader = None, stderrReader = None \<rparr>
      in case pollMillis_setter pollMs j of
           (Inl e, j') \<Rightarrow> Inl e
         | (Inr u, j') \<Rightarrow> Inr j')"

text \<open>
  \<^verbatim>\<open>start\<close>. \<open>os_spawn\<close> is the system creating the process for \<^verbatim>\<open>Popen(args=command,
  cwd=cwd, ...)\<close>: it gives the new process id, or the exception \<^verbatim>\<open>Popen\<close> raises.
  Each \<^verbatim>\<open>PipeReader(...)\<close> is built with its default of 120 milliseconds. The value
  returned is \<^verbatim>\<open>self._pid\<close>, which was just set to the \<^verbatim>\<open>pid\<close> of the new process.
\<close>

definition Job_start ::
  "(string \<Rightarrow> string option \<Rightarrow> error + int) \<Rightarrow> string option \<Rightarrow> Job \<Rightarrow> world
     \<Rightarrow> (error + int) \<times> Job \<times> world" where
  "Job_start os_spawn cwd j w =
     (case os_spawn (command j) cwd of
        Inl e \<Rightarrow> (Inl e, j, w)
      | Inr newpid \<Rightarrow>
          (let p = length (procs w);
               w1 = w\<lparr>procs := procs w @ [Popen_init newpid]\<rparr>;
               j1 = j\<lparr>process := Some p\<rparr>;
               thepid = Popen_pid (procs w1 ! p);
               j2 = j1\<lparr>pid := Some thepid\<rparr>;
               ro = length (readers w1);
               w2 = w1\<lparr>readers := readers w1 @ [PipeReader_init (Stdout p) 120]\<rparr>;
               j3 = j2\<lparr>stdoutReader := Some ro\<rparr>;
               re = length (readers w2);
               w3 = w2\<lparr>readers := readers w2 @ [PipeReader_init (Stderr p) 120]\<rparr>;
               j4 = j3\<lparr>stderrReader := Some re\<rparr>;
               w4 = w3\<lparr>readers := (readers w3)[ro := PipeReader_start (readers w3 ! ro)]\<rparr>;
               w5 = w4\<lparr>readers := (readers w4)[re := PipeReader_start (readers w4 ! re)]\<rparr>;
               j5 = (case pollMillis j4 of
                       Some ms \<Rightarrow> j4\<lparr>pollTimer := Timer_Start ms (pollTimer j4)\<rparr>
                     | None \<Rightarrow> j4)
           in (Inr thepid, j5, w5)))"

definition Job_onTerminate :: "int option \<Rightarrow> Job \<Rightarrow> world \<Rightarrow> Job \<times> world" where
  "Job_onTerminate exitCode j w =
     (let j1 = (if IsRunning (pollTimer j) then j\<lparr>pollTimer := Timer_Stop (pollTimer j)\<rparr>
                else j)
      in case terminateCallback j1 of
           Some cb \<Rightarrow> (j1, CallAfter (CallTerminate cb (pid j1) exitCode) w)
         | None \<Rightarrow> (j1, w))"

text \<open>
  \<^verbatim>\<open>terminate\<close>. The arguments \<^verbatim>\<open>signal\<close> and \<^verbatim>\<open>flags\<close> are not used by the body.
  A reader attribute that is still \<^verbatim>\<open>None\<close> raises \<^verbatim>\<open>AttributeError\<close> at its
  \<^verbatim>\<open>.stop()\<close>.
\<close>

definition Job_terminate :: "int \<Rightarrow> int \<Rightarrow> Job \<Rightarrow> world \<Rightarrow> (error + pyval) \<times> Job \<times> world" where
  "Job_terminate sig flgs j w =
     (if \<not> isRunning j then (Inr PyNone, j, w)
      else
        (let j1 = j\<lparr>pollTimer := Timer_Stop (pollTimer j)\<rparr> in
         case process j1 of
           None \<Rightarrow> (Inl AttributeError, j1, w)
         | Some p \<Rightarrow>
            (case Popen_terminate (procs w ! p) of
               Inl e \<Rightarrow> (Inl e, j1, w)
             | Inr p' \<Rightarrow>
                (let w1 = w\<lparr>procs := (procs w)[p := p']\<rparr> in
                 case stdoutReader j1 of
                   None \<Rightarrow> (Inl AttributeError, j1, w1)
                 | Some ro \<Rightarrow>
                    (let w2 = w1\<lparr>readers := (readers w1)[ro := PipeReader_stop (readers w1 ! ro)]\<rparr> in
                     case stderrReader j1 of
                       None \<Rightarrow> (Inl AttributeError, j1, w2)
                     | Some re \<Rightarrow>
                        (let w3 = w2\<lparr>readers := (readers w2)[re := PipeReader_stop (readers w2 ! re)]\<rparr> in
                         case Job_onTerminate (returncode (procs w3 ! p)) j1 w3 of
                           (j2, w4) \<Rightarrow>
                             (let j3 = j2\<lparr>process := None, pid := None\<rparr>;
                                  j4 = j3\<lparr>flags := 0\<rparr>
                              in (Inr PyNone, j4, w4))))))))"

text \<open>
  \<^verbatim>\<open>poll\<close>. \<open>poll_reader\<close> is one of its two blocks \<^verbatim>\<open>if reader.isAvailable: ...\<close>, for
  the reader at \<open>ref\<close>, the callback \<open>cb\<close> and the kind of call \<open>mk\<close>.
\<close>

definition poll_reader ::
  "nat \<Rightarrow> callback option \<Rightarrow> (callback \<Rightarrow> string \<Rightarrow> call) \<Rightarrow> world \<Rightarrow> world" where
  "poll_reader ref cb mk w =
     (if isAvailable (readers w ! ref) then
        (case PipeReader_read (readers w ! ref) of
           (text, r') \<Rightarrow>
             (let w' = w\<lparr>readers := (readers w)[ref := r']\<rparr> in
              case cb of
                Some f \<Rightarrow> CallAfter (mk f text) w'
              | None \<Rightarrow> w'))
      else w)"

definition Job_poll :: "Job \<Rightarrow> world \<Rightarrow> (error + unit) \<times> Job \<times> world" where
  "Job_poll j w =
     (case process j of
        None \<Rightarrow> (Inr (), j, w)
      | Some p \<Rightarrow>
         (case Popen_poll (procs w ! p) of
            (retCode, p') \<Rightarrow>
              (let w1 = w\<lparr>procs := (procs w)[p := p']\<rparr> in
               case stdoutReader j of
                 None \<Rightarrow> (Inl AttributeError, j, w1)
               | Some ro \<Rightarrow>
                  (let w2 = poll_reader ro (inputCallback j) CallInput w1 in
                   case stderrReader j of
                     None \<Rightarrow> (Inl AttributeError, j, w2)
                   | Some re \<Rightarrow>
                      (let w3 = poll_reader re (errorCallback j) CallError w2;
                           w4 = (if retCode \<noteq> None then CallAfter (CallOnTerminate retCode) w3
                                 else w3)
                       in (Inr (), j, w4))))))"

definition Job_onNotify :: "Job \<Rightarrow> world \<Rightarrow> (error + unit) \<times> Job \<times> world" where
  "Job_onNotify j w = Job_poll j w"

text \<open>
  The host loop runs the first pending call: \<^verbatim>\<open>onTerminate\<close> is this module's code, a
  callback of the host is recorded as delivered. \<open>run_pending\<close> runs the loop until no
  call is pending.
\<close>

definition run_call :: "call \<Rightarrow> Job \<Rightarrow> world \<Rightarrow> Job \<times> world" where
  "run_call c j w =
     (case c of
        CallOnTerminate exitCode \<Rightarrow> Job_onTerminate exitCode j w
      | CallInput f text \<Rightarrow> (j, w\<lparr>delivered := delivered w @ [c]\<rparr>)
      | CallError f text \<Rightarrow> (j, w\<lparr>delivered := delivered w @ [c]\<rparr>)
      | CallTerminate f p exitCode \<Rightarrow> (j, w\<lparr>delivered := delivered w @ [c]\<rparr>))"

fun weight :: "call \<Rightarrow> nat" where
  "weight (CallOnTerminate exitCode) = 2"
| "weight c = 1"

function run_pending :: "Job \<Rightarrow> world \<Rightarrow> Job \<times> world" where
  "run_pending j w =
     (case pending w of
        [] \<Rightarrow> (j, w)
      | c # cs \<Rightarrow> (case run_call c j (w\<lparr>pending := cs\<rparr>) of (j', w') \<Rightarrow> run_pending j' w'))"
  by pat_completeness auto

lemma run_call_weight:
  "run_call c j w = (j', w') \<Longrightarrow>
     sum_list (map weight (pending w')) < weight c + sum_list (map weight (pending w))"
  by (cases c) (auto simp: run_call_def Job_onTerminate_def CallAfter_def Let_def
      split: option.splits if_splits)

termination run_pending
proof (relation "measure (\<lambda>(j, w). sum_list (map weight (pending w)))")
  show "wf (measure (\<lambda>(j, w). sum_list (map weight (pending w))))" by simp
next
  fix j w c cs x j' w'
  assume p: "pending w = c # cs" and x: "(j', w') = run_call c j (w\<lparr>pending := cs\<rparr>)"
  from x have "run_call c j (w\<lparr>pending := cs\<rparr>) = (j', w')" by simp
  from run_call_weight [OF this] p
  show "((j', w'), (j, w)) \<in> measure (\<lambda>(j, w). sum_list (map weight (pending w)))"
    by simp
qed

text \<open>
  The phase of \<^verbatim>\<open>poll\<close> a queued call comes from: standard output, standard error, exit.
  The user's terminate callback is queued by \<^verbatim>\<open>onTerminate\<close> only.
\<close>

fun phase :: "call \<Rightarrow> nat" where
  "phase (CallInput f text) = 0"
| "phase (CallError f text) = 1"
| "phase (CallOnTerminate exitCode) = 2"
| "phase (CallTerminate f p exitCode) = 3"

fun is_exit_callback :: "call \<Rightarrow> bool" where
  "is_exit_callback (CallTerminate f p exitCode) = True"
| "is_exit_callback c = False"

text \<open>One \<^verbatim>\<open>poll()\<close> of the host, followed by the host loop running what is pending.\<close>

definition poll_and_dispatch :: "Job \<times> world \<Rightarrow> Job \<times> world" where
  "poll_and_dispatch jw =
     (case Job_poll (fst jw) (snd jw) of (res, j', w') \<Rightarrow> run_pending j' w')"

subsection \<open>A concrete job\<close>

text \<open>
  The values of \<^verbatim>\<open>wx.SIGTERM\<close> and \<^verbatim>\<open>wx.KILL_NOCHILDREN\<close>, the defaults of
  \<^verbatim>\<open>terminate\<close>.
\<close>

definition SIGTERM :: int where
  "SIGTERM = 15"

definition KILL_NOCHILDREN :: int where
  "KILL_NOCHILDREN = 0"

text \<open>
  \<open>job0\<close> is \<^verbatim>\<open>Job('python3 myScript.py', 0, cb1, cb2, cb3)\<close>, the three callbacks named
  1 (terminate), 2 (input) and 3 (error). \<open>started\<close> is that job and the store after
  \<^verbatim>\<open>start()\<close>, the system having given the child the process id 4242.
\<close>

definition job0 :: Job where
  "job0 = \<lparr> command = ''python3 myScript.py'', pid = None, flags = 0, process = None,
             pollMillis = None, pollTimer = Timer_init, env = None,
             inputCallback = Some 2, errorCallback = Some 3, terminateCallback = Some 1,
             stdoutReader = None, stderrReader = None \<rparr>"

definition spawn_ok :: "string \<Rightarrow> string option \<Rightarrow> error + int" where
  "spawn_ok cmd cwd = Inr 4242"

definition started :: "Job \<times> world" where
  "started = snd (Job_start spawn_ok None job0 world_init)"

text \<open>
  Acts of the system and of the worker threads on the store: a kill request on process
  \<open>p\<close> will be refused; the worker of the reader at \<open>ref\<close> takes a chunk off its pipe.
\<close>

definition kill_denied :: "nat \<Rightarrow> world \<Rightarrow> world" where
  "kill_denied p w = w\<lparr>procs := (procs w)[p := (procs w ! p)\<lparr>killError := Some OSError\<rparr>]\<rparr>"

definition worker_reads :: "nat \<Rightarrow> string \<Rightarrow> world \<Rightarrow> world" where
  "worker_reads ref s w = w\<lparr>readers := (readers w)[ref := run_readline s (readers w ! ref)]\<rparr>"

subsection \<open>Properties of the reader\<close>

lemma read_empty: "\<not> isAvailable r \<Longrightarrow> PipeReader_read r = ('''', r)"
  by (simp add: isAvailable_def Queue_full_def PipeReader_read_def Queue_get_nowait_def)

lemma read_times_empty: "\<not> isAvailable r \<Longrightarrow> read_times n r = (replicate n '''', r)"
  by (induction n) (simp_all add: read_empty)

lemma enqueue_thread: "thread (enqueue s r) = thread r"
  by (simp add: enqueue_def Queue_put_def Queue_full_def split: option.splits)

lemma enqueue_buffered: "buffered (enqueue s r) = buffered r @ s"
  by (simp add: enqueue_def buffered_def Queue_put_def Queue_full_def split: option.splits)

lemma enqueue_stop: "stopSignal (enqueue s r) = stopSignal r"
  by (simp add: enqueue_def Queue_put_def Queue_full_def split: option.splits)

lemma enqueue_closed: "closed (enqueue s r) = closed r"
  by (simp add: enqueue_def Queue_put_def Queue_full_def split: option.splits)

lemma read_buffered: "PipeReader_read r = (v, r') \<Longrightarrow> v @ buffered r' = buffered r"
  by (auto simp: PipeReader_read_def Queue_get_nowait_def buffered_def split: option.splits)

lemma read_keeps:
  "PipeReader_read r = (v, r') \<Longrightarrow>
     thread r' = thread r \<and> stopSignal r' = stopSignal r \<and> closed r' = closed r
     \<and> overflowBuffer r' = overflowBuffer r"
  by (auto simp: PipeReader_read_def Queue_get_nowait_def split: option.splits)

lemma step_conserves:
  assumes "thread r = Started" "\<not> stopSignal r" "e \<noteq> Stop" "step (r, out) e = (r', out')"
  shows "concat out' @ buffered r' = concat out @ buffered r @ produced [e]
         \<and> thread r' = Started \<and> \<not> stopSignal r'"
proof (cases e)
  case (Readline s)
  with assms show ?thesis
    by (cases "s = []") (auto simp: run_readline_def enqueue_thread enqueue_buffered enqueue_stop)
next
  case Read
  obtain v r1 where v: "PipeReader_read r = (v, r1)" by (cases "PipeReader_read r")
  with assms Read have "r' = r1" "out' = out @ [v]" by auto
  with assms read_buffered[OF v] read_keeps[OF v] show ?thesis using Read by simp
next
  case Stop
  with assms show ?thesis by simp
qed

lemma produced_append: "produced (xs @ ys) = produced xs @ produced ys"
  by (induction xs rule: produced.induct) auto

lemma stream_conserved_aux:
  assumes "thread r = Started" "\<not> stopSignal r" "Stop \<notin> set evs"
    "foldl step (r, out) evs = (r', out')"
  shows "concat out' @ buffered r' = concat out @ buffered r @ produced evs
         \<and> thread r' = Started \<and> \<not> stopSignal r'"
  using assms
proof (induction evs arbitrary: r out)
  case Nil
  then show ?case by simp
next
  case (Cons e evs)
  obtain r1 out1 where s: "step (r, out) e = (r1, out1)" by (cases "step (r, out) e")
  from Cons.prems have ne: "e \<noteq> Stop" by auto
  from step_conserves[OF Cons.prems(1,2) ne s]
  have a: "concat out1 @ buffered r1 = concat out @ buffered r @ produced [e]"
    and t: "thread r1 = Started" and st: "\<not> stopSignal r1" by auto
  from Cons.prems s have f: "foldl step (r1, out1) evs = (r', out')" by simp
  from Cons.prems have ns: "Stop \<notin> set evs" by simp
  from Cons.IH[OF t st ns f]
  have b: "concat out' @ buffered r' = concat out1 @ buffered r1 @ produced evs"
    and t': "thread r' = Started" and st': "\<not> stopSignal r'" by auto
  have "produced (e # evs) = produced [e] @ produced evs"
    using produced_append[of "[e]" evs] by simp
  with a b t' st' show ?case by (metis append.assoc)
qed

lemma foldl_reads:
  "foldl step (r, out) (replicate n Read)
     = (snd (read_times n r), out @ fst (read_times n r))"
  by (induction n arbitrary: r out) (auto split: prod.splits)

text \<open>
  C9. \<^verbatim>\<open>read()\<close> is a total function of the reader (it never waits). When the slot is
  occupied it returns the staged chunk and leaves the slot empty, changing nothing else;
  when the slot is empty it returns the empty string and changes nothing, and so do any
  number of further calls.
\<close>

theorem read_never_blocks:
  "(isAvailable r \<longrightarrow>
      (\<exists>chunk. queue r = Some chunk \<and> PipeReader_read r = (chunk, r\<lparr>queue := None\<rparr>)
         \<and> \<not> isAvailable (snd (PipeReader_read r))))
   \<and> (\<not> isAvailable r \<longrightarrow>
        PipeReader_read r = ('''', r) \<and> read_times n r = (replicate n '''', r))"
proof (intro conjI impI)
  assume "isAvailable r"
  then obtain chunk where c: "queue r = Some chunk"
    by (auto simp: isAvailable_def Queue_full_def)
  then show "\<exists>chunk. queue r = Some chunk \<and> PipeReader_read r = (chunk, r\<lparr>queue := None\<rparr>)
       \<and> \<not> isAvailable (snd (PipeReader_read r))"
    by (simp add: PipeReader_read_def Queue_get_nowait_def isAvailable_def Queue_full_def)
next
  assume e: "\<not> isAvailable r"
  then show "PipeReader_read r = ('''', r)" by (rule read_empty)
  from e show "read_times n r = (replicate n '''', r)" by (rule read_times_empty)
qed

theorem read_never_blocks_witness:
  "PipeReader_read ((PipeReader_init (Stdout 0) 120)\<lparr>queue := Some ''out''\<rparr>)
     = (''out'', PipeReader_init (Stdout 0) 120)
   \<and> PipeReader_read (PipeReader_init (Stdout 0) 120) = ('''', PipeReader_init (Stdout 0) 120)
   \<and> read_times 3 (PipeReader_init (Stdout 0) 120) = (['''', '''', ''''], PipeReader_init (Stdout 0) 120)"
proof -
  have full: "isAvailable ((PipeReader_init (Stdout 0) 120)\<lparr>queue := Some ''out''\<rparr>)"
    by (simp add: isAvailable_def Queue_full_def)
  have empty: "\<not> isAvailable (PipeReader_init (Stdout 0) 120)"
    by (simp add: isAvailable_def Queue_full_def PipeReader_init_def)
  have q: "(PipeReader_init (Stdout 0) 120)\<lparr>queue := None\<rparr> = PipeReader_init (Stdout 0) 120"
    by (simp add: PipeReader_init_def)
  from read_never_blocks [of "(PipeReader_init (Stdout 0) 120)\<lparr>queue := Some ''out''\<rparr>" 0] full
  have a: "PipeReader_read ((PipeReader_init (Stdout 0) 120)\<lparr>queue := Some ''out''\<rparr>)
     = (''out'', PipeReader_init (Stdout 0) 120)"
    by (auto simp: q)
  from read_never_blocks [of "PipeReader_init (Stdout 0) 120" 3] empty
  have b: "PipeReader_read (PipeReader_init (Stdout 0) 120) = ('''', PipeReader_init (Stdout 0) 120)
     \<and> read_times 3 (PipeReader_init (Stdout 0) 120) = (replicate 3 '''', PipeReader_init (Stdout 0) 120)"
    by blast
  from a b show ?thesis by (simp add: numeral_3_eq_3)
qed

text \<open>
  Nothing is lost inside a reader: at every moment the values handed out by \<^verbatim>\<open>read()\<close>,
  followed by the staged chunk and the overflow buffer, are the text taken off the pipe,
  in order. The worker never waits inside \<^verbatim>\<open>Queue.put\<close>.
\<close>

lemma stream_conserved:
  assumes "thread r = Started" and "\<not> stopSignal r" and "Stop \<notin> set evs"
  shows "concat (snd (run_events r evs)) @ buffered (fst (run_events r evs))
           = buffered r @ produced evs
         \<and> thread (fst (run_events r evs)) = Started"
proof -
  obtain r' out' where f: "foldl step (r, []) evs = (r', out')"
    by (cases "foldl step (r, []) evs")
  from stream_conserved_aux [OF assms f] f show ?thesis
    by (simp add: run_events_def)
qed

lemma no_eof_keeps_running:
  assumes "thread r = Started" "Readline '''' \<notin> set evs" "foldl step (r, out) evs = (r', out')"
  shows "thread r' = Started \<and> closed r' = closed r \<and> (stopSignal r \<longrightarrow> stopSignal r')"
  using assms
proof (induction evs arbitrary: r out)
  case Nil
  then show ?case by simp
next
  case (Cons e evs)
  obtain r1 out1 where s: "step (r, out) e = (r1, out1)" by (cases "step (r, out) e")
  have k: "thread r1 = Started \<and> closed r1 = closed r \<and> (stopSignal r \<longrightarrow> stopSignal r1)"
  proof (cases e)
    case (Readline l)
    with Cons.prems have "l \<noteq> []" by auto
    with Readline s Cons.prems(1) show ?thesis
      by (auto simp: run_readline_def enqueue_thread enqueue_closed enqueue_stop)
  next
    case Read
    obtain v r2 where v: "PipeReader_read r = (v, r2)" by (cases "PipeReader_read r")
    with Read s have "r1 = r2" by simp
    with read_keeps[OF v] Cons.prems(1) show ?thesis by simp
  next
    case Stop
    with s Cons.prems(1) show ?thesis by (auto simp: PipeReader_stop_def)
  qed
  from Cons.prems s have f: "foldl step (r1, out1) evs = (r', out')" by simp
  from Cons.prems have n: "Readline '''' \<notin> set evs" by simp
  from Cons.IH[OF _ n f] k show ?case by simp
qed

lemma two_lines_then_eof:
  "foldl step (PipeReader_start (PipeReader_init (Stdout 0) 120), [])
      [Readline ''line1\<newline>'', Readline ''line2\<newline>'', Readline '''']
   = ((PipeReader_start (PipeReader_init (Stdout 0) 120))
        \<lparr>queue := Some ''line1\<newline>'', overflowBuffer := [''line2\<newline>'']\<rparr>, [])"
  by (simp add: run_readline_def enqueue_def PipeReader_start_def PipeReader_init_def
      Queue_full_def Queue_put_def)

text \<open>
  C1. The code at the failing input. The child writes two lines and closes its end before
  the consumer reads: \<^verbatim>\<open>readline\<close> returns the first line (staged), the second line
  (the slot is full, so it goes to the overflow buffer) and then the empty string. The
  overflow buffer is only emptied by the loop body, that is when a further chunk arrives,
  and none does. However many times the consumer then calls \<^verbatim>\<open>read()\<close>, it gets the
  first line and empty strings: the values returned concatenate to the first line, the
  pipe produced both, and the second line stays in the overflow buffer.
\<close>

theorem overflow_stranded_after_eof:
  "run_events (PipeReader_start (PipeReader_init (Stdout 0) 120))
      ([Readline ''line1\<newline>'', Readline ''line2\<newline>'', Readline ''''] @ replicate (Suc n) Read)
     = ((PipeReader_start (PipeReader_init (Stdout 0) 120))\<lparr>overflowBuffer := [''line2\<newline>'']\<rparr>,
        ''line1\<newline>'' # replicate n '''')
   \<and> concat (''line1\<newline>'' # replicate n '''') = ''line1\<newline>''
   \<and> produced ([Readline ''line1\<newline>'', Readline ''line2\<newline>'', Readline '''']
        @ replicate (Suc n) Read) = ''line1\<newline>line2\<newline>''"
proof -
  let ?r0 = "PipeReader_start (PipeReader_init (Stdout 0) 120)"
  have b: "PipeReader_read (?r0\<lparr>queue := Some ''line1\<newline>'', overflowBuffer := [''line2\<newline>'']\<rparr>)
     = (''line1\<newline>'', ?r0\<lparr>overflowBuffer := [''line2\<newline>'']\<rparr>)"
    by (simp add: PipeReader_read_def Queue_get_nowait_def PipeReader_start_def PipeReader_init_def)
  have c: "\<not> isAvailable (?r0\<lparr>overflowBuffer := [''line2\<newline>'']\<rparr>)"
    by (simp add: isAvailable_def Queue_full_def PipeReader_start_def PipeReader_init_def)
  have run: "run_events ?r0
      ([Readline ''line1\<newline>'', Readline ''line2\<newline>'', Readline ''''] @ replicate (Suc n) Read)
     = (?r0\<lparr>overflowBuffer := [''line2\<newline>'']\<rparr>, ''line1\<newline>'' # replicate n '''')"
    unfolding run_events_def foldl_append two_lines_then_eof foldl_reads
    by (simp add: b read_times_empty [OF c])
  have cc: "concat (replicate n ('''' :: string)) = ''''"
    by (induction n) simp_all
  have p: "produced (replicate (Suc n) Read) = ''''"
    by (induction n) simp_all
  show ?thesis
    using run cc p by (simp add: produced_append del: replicate_Suc)
qed

text \<open>
  Where the worker tests the stop signal. \<^verbatim>\<open>stop()\<close> sets the signal, and the signal
  stays set. As long as \<^verbatim>\<open>readline\<close> has not returned the empty string (end of file),
  whatever chunks arrive and whatever the consumer reads, the worker is still in its loop
  and the pipe is as it was; at the first empty string after the stop it leaves the loop
  and closes the pipe.
\<close>

lemma stop_tested_only_at_eof:
  assumes "thread r = Started" and "Readline '''' \<notin> set evs"
  shows "stopSignal (fst (run_events (PipeReader_stop r) evs))
     \<and> thread (fst (run_events (PipeReader_stop r) evs)) = Started
     \<and> closed (fst (run_events (PipeReader_stop r) evs)) = closed r
     \<and> thread (run_readline '''' (fst (run_events (PipeReader_stop r) evs))) = Finished
     \<and> closed (run_readline '''' (fst (run_events (PipeReader_stop r) evs)))"
proof -
  obtain r' out' where f: "foldl step (PipeReader_stop r, []) evs = (r', out')"
    by (cases "foldl step (PipeReader_stop r, []) evs")
  from assms(1) have t: "thread (PipeReader_stop r) = Started" by (simp add: PipeReader_stop_def)
  from no_eof_keeps_running[OF t assms(2) f]
  have "thread r' = Started" "closed r' = closed r" "stopSignal r'"
    by (simp_all add: PipeReader_stop_def)
  with f show ?thesis by (simp add: run_events_def run_readline_def)
qed

text \<open>
  C3. The code at the failing input: a running reader whose pipe stays open and delivers
  nothing, so that the worker waits inside \<^verbatim>\<open>readline\<close>, and a call of \<^verbatim>\<open>stop()\<close>.
  The stop signal is set, but the \<^verbatim>\<open>sleep\<close> and the test of the signal stand after the
  \<^verbatim>\<open>for\<close> loop, which the worker cannot leave before \<^verbatim>\<open>readline\<close> returns. However
  many times the consumer calls \<^verbatim>\<open>read()\<close> afterwards (\<open>n\<close> times: the host's polls are
  the only measure of elapsed time here), the worker is still in its loop and the pipe is
  not closed. Only a \<^verbatim>\<open>readline\<close> that returns the empty string lets the worker see the
  signal, leave and close the pipe.
\<close>

theorem stop_unseen_while_readline_waits:
  "stopSignal (fst (run_events (PipeReader_start (PipeReader_init (Stdout 0) 120))
       (Stop # replicate n Read)))
   \<and> thread (fst (run_events (PipeReader_start (PipeReader_init (Stdout 0) 120))
       (Stop # replicate n Read))) = Started
   \<and> closed (fst (run_events (PipeReader_start (PipeReader_init (Stdout 0) 120))
       (Stop # replicate n Read))) = False
   \<and> thread (run_readline '''' (fst (run_events
       (PipeReader_start (PipeReader_init (Stdout 0) 120)) (Stop # replicate n Read)))) = Finished
   \<and> closed (run_readline '''' (fst (run_events
       (PipeReader_start (PipeReader_init (Stdout 0) 120)) (Stop # replicate n Read))))"
proof -
  let ?r0 = "PipeReader_start (PipeReader_init (Stdout 0) 120)"
  obtain r' out' where f: "foldl step (?r0, []) (Stop # replicate n Read) = (r', out')"
    by (cases "foldl step (?r0, []) (Stop # replicate n Read)")
  then have g: "foldl step (PipeReader_stop ?r0, []) (replicate n Read) = (r', out')"
    by simp
  have t: "thread (PipeReader_stop ?r0) = Started"
    by (simp add: PipeReader_stop_def PipeReader_start_def)
  have c: "closed (PipeReader_stop ?r0) = False"
    by (simp add: PipeReader_stop_def PipeReader_start_def PipeReader_init_def)
  have e: "Readline '''' \<notin> set (replicate n Read)"
    by auto
  from no_eof_keeps_running [OF t e g] c
  have "thread r' = Started" "closed r' = False" "stopSignal r'"
    by (simp_all add: PipeReader_stop_def)
  with f show ?thesis
    by (simp add: run_events_def run_readline_def del: foldl.simps)
qed

subsection \<open>Properties of the job\<close>

declare run_pending.simps [simp del]

lemma run_pending_Nil: "pending w = [] \<Longrightarrow> run_pending j w = (j, w)"
  by (simp add: run_pending.simps)

lemma run_pending_Cons:
  "pending w = c # cs \<Longrightarrow>
     run_pending j w = (case run_call c j (w\<lparr>pending := cs\<rparr>) of (j', w') \<Rightarrow> run_pending j' w')"
  by (subst run_pending.simps) simp

lemma Job_init_job0:
  "Job_init ''python3 myScript.py'' 0 (Some 1) (Some 2) (Some 3) PyNone None = Inr job0"
  by (simp add: Job_init_def pollMillis_setter_def Timer_init_def job0_def)

lemma started_eq:
  "started =
     (job0\<lparr>process := Some 0, pid := Some 4242, stdoutReader := Some 0, stderrReader := Some 1\<rparr>,
      \<lparr> procs = [Popen_init 4242],
        readers = [PipeReader_start (PipeReader_init (Stdout 0) 120),
                   PipeReader_start (PipeReader_init (Stderr 0) 120)],
        pending = [], delivered = [] \<rparr>)"
  by (simp add: started_def Job_start_def spawn_ok_def world_init_def job0_def Let_def
      Popen_init_def)

lemma isRunning_started: "isRunning (fst started)"
  by (simp add: started_eq isRunning_def)

text \<open>
  The guard of the two setters. While \<^verbatim>\<open>isRunning\<close> holds, assigning to \<^verbatim>\<open>command\<close> or
  to \<^verbatim>\<open>flags\<close> raises (\<^verbatim>\<open>AttributeError\<close> is the code's error for an invalid state) and
  the job is left as it was; otherwise the assignment succeeds and stores the value. A job
  fresh from the constructor and a job after a \<^verbatim>\<open>terminate()\<close> that returned are not
  running.
\<close>

lemma setters_guarded:
  "(isRunning j \<longrightarrow>
       command_setter c j = (Inl AttributeError, j) \<and> flags_setter f j = (Inl AttributeError, j))
   \<and> (\<not> isRunning j \<longrightarrow>
       command_setter c j = (Inr (), j\<lparr>command := c\<rparr>)
       \<and> flags_setter f j = (Inr (), j\<lparr>flags := f\<rparr>))
   \<and> (Job_init cmd flgs tcb icb ecb pm en = Inr j \<longrightarrow> \<not> isRunning j)
   \<and> (Job_terminate sig fl j0 w = (Inr v, j, w') \<longrightarrow> \<not> isRunning j)"
proof (intro conjI impI)
  assume "Job_init cmd flgs tcb icb ecb pm en = Inr j"
  then show "\<not> isRunning j"
    by (auto simp: Job_init_def pollMillis_setter_def Timer_init_def isRunning_def Let_def
        split: pyval.splits if_splits)
next
  assume "Job_terminate sig fl j0 w = (Inr v, j, w')"
  then show "\<not> isRunning j"
    by (auto simp: Job_terminate_def Job_onTerminate_def isRunning_def Let_def
        split: if_splits option.splits sum.splits prod.splits)
qed (simp_all add: command_setter_def flags_setter_def)

text \<open>
  A job that was never started has no process: the constructor sets none, and no method
  but \<^verbatim>\<open>start\<close> sets one.
\<close>

lemma unstarted_stays_unstarted:
  assumes "process j = None"
  shows "process (snd (command_setter c j)) = None"
    and "process (snd (flags_setter f j)) = None"
    and "process (snd (pollMillis_setter v j)) = None"
    and "process (fst (snd (Job_poll j w))) = None"
    and "process (fst (snd (Job_terminate sig fl j w))) = None"
    and "process (fst (Job_onTerminate rc j w)) = None"
  using assms
  by (auto simp: command_setter_def flags_setter_def pollMillis_setter_def Job_poll_def
      Job_terminate_def Job_onTerminate_def isRunning_def Let_def
      split: pyval.splits option.splits)

text \<open>
  C8. On a job without a process, in particular on a job as the constructor returns it,
  \<^verbatim>\<open>terminate\<close> with any signal and any flags raises nothing, returns \<^verbatim>\<open>None\<close> and
  leaves the job and the store as they were.
\<close>

theorem terminate_before_start:
  "(process j = None \<longrightarrow> Job_terminate sig fl j w = (Inr PyNone, j, w))
   \<and> (Job_init cmd flgs tcb icb ecb pm en = Inr j \<longrightarrow>
        Job_terminate sig fl j w = (Inr PyNone, j, w))"
proof (intro conjI impI)
  assume "process j = None"
  then show "Job_terminate sig fl j w = (Inr PyNone, j, w)"
    by (simp add: Job_terminate_def isRunning_def)
next
  assume "Job_init cmd flgs tcb icb ecb pm en = Inr j"
  then have "process j = None"
    by (auto simp: Job_init_def pollMillis_setter_def Timer_init_def Let_def
        split: pyval.splits if_splits)
  then show "Job_terminate sig fl j w = (Inr PyNone, j, w)"
    by (simp add: Job_terminate_def isRunning_def)
qed

theorem terminate_before_start_witness:
  "Job_terminate SIGTERM KILL_NOCHILDREN job0 world_init = (Inr PyNone, job0, world_init)
   \<and> process job0 = None"
proof -
  have p: "process job0 = None" by (simp add: job0_def)
  from terminate_before_start [of job0 SIGTERM KILL_NOCHILDREN world_init
      "''python3 myScript.py''" 0 "Some 1" "Some 2" "Some 3" PyNone None] Job_init_job0 p
  show ?thesis by blast
qed

text \<open>
  C4. The code at the failing input. \<^verbatim>\<open>terminate\<close> never returns a boolean: on the
  started job it returns \<^verbatim>\<open>None\<close> when the kill request succeeds, and when the system
  refuses the request the exception of \<^verbatim>\<open>Popen.terminate()\<close> leaves the method.
\<close>

theorem terminate_returns_no_bool:
  "fst (Job_terminate sig fl j w) \<noteq> Inr (PyBool b)
   \<and> fst (Job_terminate SIGTERM KILL_NOCHILDREN (fst started) (snd started)) = Inr PyNone
   \<and> fst (Job_terminate SIGTERM KILL_NOCHILDREN (fst started) (kill_denied 0 (snd started)))
       = Inl OSError"
proof (intro conjI)
  show "fst (Job_terminate sig fl j w) \<noteq> Inr (PyBool b)"
    by (auto simp: Job_terminate_def Let_def split: option.splits sum.splits prod.splits)
  show "fst (Job_terminate SIGTERM KILL_NOCHILDREN (fst started) (snd started)) = Inr PyNone"
    by (simp add: started_eq Job_terminate_def isRunning_def job0_def Popen_terminate_def
        Popen_init_def Job_onTerminate_def Let_def split: prod.splits)
  show "fst (Job_terminate SIGTERM KILL_NOCHILDREN (fst started) (kill_denied 0 (snd started)))
       = Inl OSError"
    by (simp add: started_eq Job_terminate_def isRunning_def job0_def Popen_terminate_def
        Popen_init_def kill_denied_def Let_def)
qed

text \<open>
  C10. \<^verbatim>\<open>start\<close> has no guard. On a job that is running, with the system able to create
  another process, it raises nothing and returns the new process id; the job now refers
  to a new process and to two new readers, none of them the old ones; the old process
  and the old readers are in the store exactly as before (no kill request, no stop signal,
  nothing closed), with no reference left in the job; no callback is queued.
\<close>

theorem start_while_running:
  assumes "isRunning j" and "process j = Some p" and "p < length (procs w)"
    and "stdoutReader j = Some ro" and "ro < length (readers w)"
    and "stderrReader j = Some re" and "re < length (readers w)"
    and "os_spawn (command j) cwd = Inr newpid"
  shows "\<exists>j' w'. Job_start os_spawn cwd j w = (Inr newpid, j', w')
     \<and> process j' = Some (length (procs w)) \<and> process j' \<noteq> process j
     \<and> pid j' = Some newpid
     \<and> stdoutReader j' = Some (length (readers w)) \<and> stdoutReader j' \<noteq> stdoutReader j
     \<and> stderrReader j' = Some (Suc (length (readers w))) \<and> stderrReader j' \<noteq> stderrReader j
     \<and> procs w' = procs w @ [Popen_init newpid]
     \<and> readers w' = readers w @ [PipeReader_start (PipeReader_init (Stdout (length (procs w))) 120),
                                  PipeReader_start (PipeReader_init (Stderr (length (procs w))) 120)]
     \<and> procs w' ! p = procs w ! p
     \<and> readers w' ! ro = readers w ! ro
     \<and> readers w' ! re = readers w ! re
     \<and> pending w' = pending w \<and> delivered w' = delivered w"
  using assms
  by (simp add: Job_start_def Let_def nth_append list_update_append Popen_init_def
      split: option.splits)

theorem start_while_running_witness:
  "isRunning (fst started)
   \<and> (\<exists>j' w'. Job_start spawn_ok None (fst started) (snd started) = (Inr 4242, j', w')
        \<and> process j' = Some 1 \<and> pid j' = Some 4242
        \<and> stdoutReader j' = Some 2 \<and> stderrReader j' = Some 3
        \<and> procs w' ! 0 = procs (snd started) ! 0
        \<and> readers w' ! 0 = readers (snd started) ! 0
        \<and> readers w' ! 1 = readers (snd started) ! 1)"
proof -
  have l: "length (procs (snd started)) = 1" "length (readers (snd started)) = 2"
    by (simp_all add: started_eq)
  have h: "process (fst started) = Some 0" "(0::nat) < length (procs (snd started))"
    "stdoutReader (fst started) = Some 0" "(0::nat) < length (readers (snd started))"
    "stderrReader (fst started) = Some 1" "(1::nat) < length (readers (snd started))"
    "spawn_ok (command (fst started)) None = Inr 4242"
    by (simp_all add: started_eq spawn_ok_def)
  from start_while_running [where j = "fst started" and w = "snd started" and os_spawn = spawn_ok
      and cwd = None, OF isRunning_started h]
  show ?thesis using isRunning_started l
    by (auto simp: eval_nat_numeral)
qed

lemma poll_reader_eq:
  "poll_reader ref cb mk w =
     w\<lparr>readers := (if isAvailable (readers w ! ref)
                    then (readers w)[ref := (readers w ! ref)\<lparr>queue := None\<rparr>]
                    else readers w),
        pending := pending w @
          (case (queue (readers w ! ref), cb) of
             (Some text, Some f) \<Rightarrow> [mk f text]
           | _ \<Rightarrow> [])\<rparr>"
  by (auto simp: poll_reader_def isAvailable_def Queue_full_def PipeReader_read_def
      Queue_get_nowait_def CallAfter_def Let_def split: option.splits)

text \<open>
  C6. Without a process handle \<^verbatim>\<open>poll\<close> does nothing. With one (and the two readers
  \<^verbatim>\<open>start\<close> created), it returns normally, leaves the job as it is, records the exit
  status query on the process, runs no callback itself, and queues for the host thread, in
  this order: the input callback with the chunk staged on standard output (if a chunk is
  staged and a callback is set), the error callback with the chunk staged on standard
  error (likewise), and \<^verbatim>\<open>onTerminate\<close> with the exit status (if the process has
  exited).
\<close>

theorem poll_order:
  "(process j = None \<longrightarrow> Job_poll j w = (Inr (), j, w))
   \<and> (process j = Some p \<and> stdoutReader j = Some ro \<and> stderrReader j = Some re \<and> ro \<noteq> re \<longrightarrow>
        fst (Job_poll j w) = Inr ()
      \<and> fst (snd (Job_poll j w)) = j
      \<and> procs (snd (snd (Job_poll j w))) = (procs w)[p := snd (Popen_poll (procs w ! p))]
      \<and> delivered (snd (snd (Job_poll j w))) = delivered w
      \<and> pending (snd (snd (Job_poll j w))) = pending w
           @ (case (queue (readers w ! ro), inputCallback j) of
                (Some text, Some f) \<Rightarrow> [CallInput f text] | _ \<Rightarrow> [])
           @ (case (queue (readers w ! re), errorCallback j) of
                (Some text, Some f) \<Rightarrow> [CallError f text] | _ \<Rightarrow> [])
           @ (case fst (Popen_poll (procs w ! p)) of
                Some rc \<Rightarrow> [CallOnTerminate (Some rc)] | None \<Rightarrow> [])
      \<and> sorted_wrt (\<lambda>a b. phase a < phase b)
           (drop (length (pending w)) (pending (snd (snd (Job_poll j w))))))"
proof (intro conjI impI)
  assume "process j = None"
  then show "Job_poll j w = (Inr (), j, w)" by (simp add: Job_poll_def)
next
  assume a: "process j = Some p \<and> stdoutReader j = Some ro \<and> stderrReader j = Some re \<and> ro \<noteq> re"
  obtain rc p' where pp: "Popen_poll (procs w ! p) = (rc, p')"
    by (cases "Popen_poll (procs w ! p)")
  let ?out = "case (queue (readers w ! ro), inputCallback j) of
                (Some text, Some f) \<Rightarrow> [CallInput f text] | _ \<Rightarrow> []"
  let ?err = "case (queue (readers w ! re), errorCallback j) of
                (Some text, Some f) \<Rightarrow> [CallError f text] | _ \<Rightarrow> []"
  let ?ex = "case rc of Some c \<Rightarrow> [CallOnTerminate (Some c)] | None \<Rightarrow> []"
  have r: "Job_poll j w = (Inr (), j, snd (snd (Job_poll j w)))"
    using a pp by (simp add: Job_poll_def Let_def)
  have pr: "procs (snd (snd (Job_poll j w))) = (procs w)[p := p']"
    using a pp by (simp add: Job_poll_def Let_def poll_reader_eq CallAfter_def)
  have de: "delivered (snd (snd (Job_poll j w))) = delivered w"
    using a pp by (simp add: Job_poll_def Let_def poll_reader_eq CallAfter_def)
  have pe: "pending (snd (snd (Job_poll j w))) = pending w @ ?out @ ?err @ ?ex"
    using a pp by (auto simp: Job_poll_def Let_def poll_reader_eq CallAfter_def
        split: option.splits)
  have so: "sorted_wrt (\<lambda>a b. phase a < phase b) (?out @ ?err @ ?ex)"
    by (auto split: option.splits)
  show "fst (Job_poll j w) = Inr ()" using r by (metis fst_conv)
  show "fst (snd (Job_poll j w)) = j" using r by (metis fst_conv snd_conv)
  show "procs (snd (snd (Job_poll j w))) = (procs w)[p := snd (Popen_poll (procs w ! p))]"
    using pr pp by simp
  show "delivered (snd (snd (Job_poll j w))) = delivered w" by (rule de)
  show "pending (snd (snd (Job_poll j w))) = pending w
           @ (case (queue (readers w ! ro), inputCallback j) of
                (Some text, Some f) \<Rightarrow> [CallInput f text] | _ \<Rightarrow> [])
           @ (case (queue (readers w ! re), errorCallback j) of
                (Some text, Some f) \<Rightarrow> [CallError f text] | _ \<Rightarrow> [])
           @ (case fst (Popen_poll (procs w ! p)) of
                Some rc \<Rightarrow> [CallOnTerminate (Some rc)] | None \<Rightarrow> [])"
    using pe pp by simp
  show "sorted_wrt (\<lambda>a b. phase a < phase b)
           (drop (length (pending w)) (pending (snd (snd (Job_poll j w)))))"
    using pe so by simp
qed

theorem poll_order_witness:
  "Job_poll job0 world_init = (Inr (), job0, world_init)
   \<and> pending (snd (snd (Job_poll (fst started)
        (worker_reads 1 ''err\<newline>'' (worker_reads 0 ''out\<newline>''
           (child_exits 0 0 (snd started)))))))
       = [CallInput 2 ''out\<newline>'', CallError 3 ''err\<newline>'', CallOnTerminate (Some 0)]"
proof -
  let ?w = "worker_reads 1 ''err\<newline>'' (worker_reads 0 ''out\<newline>''
           (child_exits 0 0 (snd started)))"
  have n: "process job0 = None" by (simp add: job0_def)
  have h: "process (fst started) = Some 0 \<and> stdoutReader (fst started) = Some 0
      \<and> stderrReader (fst started) = Some 1 \<and> (0::nat) \<noteq> 1"
    by (simp add: started_eq)
  have w: "?w = \<lparr> procs = [(Popen_init 4242)\<lparr>exitStatus := Some 0\<rparr>],
        readers = [(PipeReader_start (PipeReader_init (Stdout 0) 120))\<lparr>queue := Some ''out\<newline>''\<rparr>,
                   (PipeReader_start (PipeReader_init (Stderr 0) 120))\<lparr>queue := Some ''err\<newline>''\<rparr>],
        pending = [], delivered = [] \<rparr>"
    by (simp add: started_eq worker_reads_def child_exits_def run_readline_def enqueue_def
        PipeReader_start_def PipeReader_init_def Queue_full_def Queue_put_def)
  from poll_order [where j = job0 and w = world_init] n
  have a: "Job_poll job0 world_init = (Inr (), job0, world_init)" by blast
  from poll_order [where j = "fst started" and p = 0 and ro = 0 and re = 1 and w = ?w] h
  have "pending (snd (snd (Job_poll (fst started) ?w))) = pending ?w
           @ (case (queue (readers ?w ! 0), inputCallback (fst started)) of
                (Some text, Some f) \<Rightarrow> [CallInput f text] | _ \<Rightarrow> [])
           @ (case (queue (readers ?w ! 1), errorCallback (fst started)) of
                (Some text, Some f) \<Rightarrow> [CallError f text] | _ \<Rightarrow> [])
           @ (case fst (Popen_poll (procs ?w ! 0)) of
                Some rc \<Rightarrow> [CallOnTerminate (Some rc)] | None \<Rightarrow> [])"
    by blast
  then have b: "pending (snd (snd (Job_poll (fst started) ?w)))
       = [CallInput 2 ''out\<newline>'', CallError 3 ''err\<newline>'', CallOnTerminate (Some 0)]"
    unfolding w
    by (simp add: started_eq job0_def Popen_poll_def Popen_init_def Let_def)
  from a b show ?thesis by blast
qed

text \<open>
  The two ways a job learns that its process has ended. \<^verbatim>\<open>terminate\<close> queues the
  terminate callback once and clears \<^verbatim>\<open>_process\<close> and \<^verbatim>\<open>_pid\<close>, so every later
  \<^verbatim>\<open>poll\<close> does nothing.
\<close>

lemma terminate_fires_once:
  assumes "isRunning j" and "Job_terminate sig fl j w = (Inr v, j', w')"
  shows "process j' = None \<and> pid j' = None
     \<and> (\<exists>rc. pending w' = pending w @
           (case terminateCallback j of Some cb \<Rightarrow> [CallTerminate cb (pid j) rc] | None \<Rightarrow> []))
     \<and> Job_poll j' w'' = (Inr (), j', w'')"
  using assms
  by (auto simp: Job_terminate_def Job_onTerminate_def Job_poll_def CallAfter_def Let_def
      Timer_Stop_def split: option.splits sum.splits if_splits)

text \<open>
  \<^verbatim>\<open>poll\<close>, when the exit status query finds that the process has ended, queues
  \<^verbatim>\<open>onTerminate\<close> and changes nothing in the job: \<^verbatim>\<open>_process\<close> and \<^verbatim>\<open>_pid\<close> stay, and
  the next \<^verbatim>\<open>poll\<close> finds the same exit status again.
\<close>

lemma Popen_poll_again:
  "fst (Popen_poll q) = Some rc \<Longrightarrow> Popen_poll (snd (Popen_poll q)) = Popen_poll q"
  by (auto simp: Popen_poll_def Let_def split: if_splits)

lemma poll_after_exit:
  assumes "process j = Some p" and "stdoutReader j = Some ro" and "stderrReader j = Some re"
    and "\<not> isAvailable (readers w ! ro)" and "\<not> isAvailable (readers w ! re)"
    and "fst (Popen_poll (procs w ! p)) = Some rc"
    and "pending w = []" and "terminateCallback j = Some cb" and "\<not> IsRunning (pollTimer j)"
  shows "poll_and_dispatch (j, w) =
     (j, w\<lparr>procs := (procs w)[p := snd (Popen_poll (procs w ! p))],
            delivered := delivered w @ [CallTerminate cb (pid j) (Some rc)]\<rparr>)"
proof -
  obtain r q where pp: "Popen_poll (procs w ! p) = (r, q)"
    by (cases "Popen_poll (procs w ! p)")
  with assms(6) have r: "r = Some rc" by simp
  have poll: "Job_poll j w =
      (Inr (), j, w\<lparr>procs := (procs w)[p := q], pending := [CallOnTerminate (Some rc)]\<rparr>)"
    using assms pp r by (simp add: Job_poll_def poll_reader_def CallAfter_def Let_def)
  have one: "run_pending j (w\<lparr>procs := (procs w)[p := q], pending := [CallOnTerminate (Some rc)]\<rparr>)
      = run_pending j (w\<lparr>procs := (procs w)[p := q],
                         pending := [CallTerminate cb (pid j) (Some rc)]\<rparr>)"
    using assms
    by (subst run_pending_Cons [where c = "CallOnTerminate (Some rc)" and cs = "[]"])
      (simp_all add: run_call_def Job_onTerminate_def CallAfter_def)
  have two: "run_pending j (w\<lparr>procs := (procs w)[p := q],
                         pending := [CallTerminate cb (pid j) (Some rc)]\<rparr>)
      = (j, w\<lparr>procs := (procs w)[p := q],
              delivered := delivered w @ [CallTerminate cb (pid j) (Some rc)]\<rparr>)"
    using assms
    by (subst run_pending_Cons [where c = "CallTerminate cb (pid j) (Some rc)" and cs = "[]"])
      (simp_all add: run_call_def run_pending_Nil)
  show ?thesis
    using poll one two pp by (simp add: poll_and_dispatch_def)
qed

lemma polls_after_exit:
  assumes "process j = Some p" and "p < length (procs w)"
    and "stdoutReader j = Some ro" and "stderrReader j = Some re"
    and "\<not> isAvailable (readers w ! ro)" and "\<not> isAvailable (readers w ! re)"
    and "fst (Popen_poll (procs w ! p)) = Some rc"
    and "pending w = []" and "terminateCallback j = Some cb" and "\<not> IsRunning (pollTimer j)"
  shows "fst ((poll_and_dispatch ^^ n) (j, w)) = j
     \<and> delivered (snd ((poll_and_dispatch ^^ n) (j, w)))
         = delivered w @ replicate n (CallTerminate cb (pid j) (Some rc))
     \<and> pending (snd ((poll_and_dispatch ^^ n) (j, w))) = []
     \<and> readers (snd ((poll_and_dispatch ^^ n) (j, w))) = readers w
     \<and> length (procs (snd ((poll_and_dispatch ^^ n) (j, w)))) = length (procs w)
     \<and> Popen_poll (procs (snd ((poll_and_dispatch ^^ n) (j, w))) ! p) = Popen_poll (procs w ! p)"
proof (induction n)
  case 0
  show ?case using assms(8) by simp
next
  case (Suc n)
  obtain j' w' where s: "(poll_and_dispatch ^^ n) (j, w) = (j', w')"
    by (cases "(poll_and_dispatch ^^ n) (j, w)")
  with Suc.IH have j: "j' = j"
    and d: "delivered w' = delivered w @ replicate n (CallTerminate cb (pid j) (Some rc))"
    and pe: "pending w' = []" and re: "readers w' = readers w"
    and le: "length (procs w') = length (procs w)"
    and po: "Popen_poll (procs w' ! p) = Popen_poll (procs w ! p)"
    by simp_all
  have step: "poll_and_dispatch (j, w') =
     (j, w'\<lparr>procs := (procs w')[p := snd (Popen_poll (procs w' ! p))],
             delivered := delivered w' @ [CallTerminate cb (pid j) (Some rc)]\<rparr>)"
    by (rule poll_after_exit [where ro = ro and re = re]) (use assms re po pe in simp_all)
  have again: "Popen_poll (snd (Popen_poll (procs w ! p))) = Popen_poll (procs w ! p)"
    using assms(7) by (rule Popen_poll_again)
  have "(poll_and_dispatch ^^ Suc n) (j, w) = poll_and_dispatch (j, w')"
    using s j by simp
  with step show ?case
    using d pe re le po again assms(2)
    by (simp add: replicate_append_same)
qed

lemma exited_by_itself:
  shows "process (fst started) = Some 0"
    and "0 < length (procs (child_exits 0 0 (snd started)))"
    and "stdoutReader (fst started) = Some 0"
    and "stderrReader (fst started) = Some 1"
    and "\<not> isAvailable (readers (child_exits 0 0 (snd started)) ! 0)"
    and "\<not> isAvailable (readers (child_exits 0 0 (snd started)) ! 1)"
    and "fst (Popen_poll (procs (child_exits 0 0 (snd started)) ! 0)) = Some 0"
    and "pending (child_exits 0 0 (snd started)) = []"
    and "terminateCallback (fst started) = Some 1"
    and "\<not> IsRunning (pollTimer (fst started))"
    and "pid (fst started) = Some 4242"
  by (simp_all add: started_eq child_exits_def job0_def isAvailable_def Queue_full_def
      PipeReader_start_def PipeReader_init_def Popen_poll_def Popen_init_def Timer_init_def
      Let_def)

text \<open>
  C2. The code at the failing input: the started job, its child exiting by itself with
  status 0, and the host calling \<^verbatim>\<open>poll()\<close> \<open>n\<close> times, the host loop running what is
  queued after each. The terminate callback has then run \<open>n\<close> times: once for every poll,
  not once for the job.
\<close>

theorem onExit_fires_at_every_poll:
  "delivered (snd ((poll_and_dispatch ^^ n) (fst started, child_exits 0 0 (snd started))))
     = replicate n (CallTerminate 1 (Some 4242) (Some 0))
   \<and> length (filter is_exit_callback
        (delivered (snd ((poll_and_dispatch ^^ n) (fst started, child_exits 0 0 (snd started))))))
     = n"
proof -
  have e: "delivered (child_exits 0 0 (snd started)) = []"
    by (simp add: started_eq child_exits_def)
  from polls_after_exit [OF exited_by_itself(1-10), of n]
  have "delivered (snd ((poll_and_dispatch ^^ n) (fst started, child_exits 0 0 (snd started))))
     = delivered (child_exits 0 0 (snd started))
         @ replicate n (CallTerminate 1 (pid (fst started)) (Some 0))"
    by blast
  with e exited_by_itself(11) show ?thesis by simp
qed

text \<open>
  C5. The code at the failing input: the same job, after one or more polls have seen the
  exit and the terminate callback has run. The job still holds its process handle and its
  process id and still counts as running, and one more \<^verbatim>\<open>poll()\<close> is not a no-op: it
  queues \<^verbatim>\<open>onTerminate\<close> again.
\<close>

theorem exit_seen_by_poll_keeps_handle:
  "process (fst ((poll_and_dispatch ^^ Suc n) (fst started, child_exits 0 0 (snd started))))
     = Some 0
   \<and> pid (fst ((poll_and_dispatch ^^ Suc n) (fst started, child_exits 0 0 (snd started))))
     = Some 4242
   \<and> isRunning (fst ((poll_and_dispatch ^^ Suc n) (fst started, child_exits 0 0 (snd started))))
   \<and> pending (snd (snd (Job_poll
        (fst ((poll_and_dispatch ^^ Suc n) (fst started, child_exits 0 0 (snd started))))
        (snd ((poll_and_dispatch ^^ Suc n) (fst started, child_exits 0 0 (snd started)))))))
     = [CallOnTerminate (Some 0)]"
proof -
  let ?s = "(poll_and_dispatch ^^ Suc n) (fst started, child_exits 0 0 (snd started))"
  from polls_after_exit [OF exited_by_itself(1-10), of "Suc n"]
  have k: "fst ?s = fst started
     \<and> delivered (snd ?s) = delivered (child_exits 0 0 (snd started))
         @ replicate (Suc n) (CallTerminate 1 (pid (fst started)) (Some 0))
     \<and> pending (snd ?s) = []
     \<and> readers (snd ?s) = readers (child_exits 0 0 (snd started))
     \<and> length (procs (snd ?s)) = length (procs (child_exits 0 0 (snd started)))
     \<and> Popen_poll (procs (snd ?s) ! 0) = Popen_poll (procs (child_exits 0 0 (snd started)) ! 0)"
    by blast
  obtain w where w: "snd ?s = w" by simp
  from k w exited_by_itself(7) 
  have f: "fst ?s = fst started" and pe: "pending w = []"
    and re: "readers w = readers (child_exits 0 0 (snd started))"
    and po: "fst (Popen_poll (procs w ! 0)) = Some 0"
    by simp_all
  obtain r q where pp: "Popen_poll (procs w ! 0) = (r, q)" by (cases "Popen_poll (procs w ! 0)")
  with po have r: "r = Some 0" by simp
  have "pending (snd (snd (Job_poll (fst started) w))) = [CallOnTerminate (Some 0)]"
    using exited_by_itself(1,3,4,5,6) pe re pp r
    by (simp add: Job_poll_def poll_reader_def CallAfter_def Let_def)
  with f w exited_by_itself(1,11) show ?thesis
    by (simp add: isRunning_def del: funpow.simps)
qed

text \<open>
  C7. The code at the failing input: the same job, terminated by the natural exit of its
  child, after one or more polls have seen the exit and the terminate callback has run.
  Assigning to \<^verbatim>\<open>command\<close> or to \<^verbatim>\<open>flags\<close> still raises and stores nothing, for every
  value: the job keeps its process handle, so \<^verbatim>\<open>isRunning\<close> still holds.
\<close>

theorem setters_raise_after_natural_exit:
  "command_setter c (fst ((poll_and_dispatch ^^ Suc n) (fst started, child_exits 0 0 (snd started))))
     = (Inl AttributeError, fst started)
   \<and> flags_setter f (fst ((poll_and_dispatch ^^ Suc n) (fst started, child_exits 0 0 (snd started))))
     = (Inl AttributeError, fst started)
   \<and> delivered (snd ((poll_and_dispatch ^^ Suc n) (fst started, child_exits 0 0 (snd started))))
     = replicate (Suc n) (CallTerminate 1 (Some 4242) (Some 0))"
proof -
  let ?s = "(poll_and_dispatch ^^ Suc n) (fst started, child_exits 0 0 (snd started))"
  have e: "delivered (child_exits 0 0 (snd started)) = []"
    by (simp add: started_eq child_exits_def)
  from polls_after_exit [OF exited_by_itself(1-10), of "Suc n"]
  have j: "fst ?s = fst started"
    and d: "delivered (snd ?s) = delivered (child_exits 0 0 (snd started))
         @ replicate (Suc n) (CallTerminate 1 (pid (fst started)) (Some 0))"
    by blast+
  from j isRunning_started
  have "command_setter c (fst ?s) = (Inl AttributeError, fst started)"
    and "flags_setter f (fst ?s) = (Inl AttributeError, fst started)"
    by (simp_all add: command_setter_def flags_setter_def del: funpow.simps)
  with d e exited_by_itself(11) show ?thesis
    by (simp del: funpow.simps replicate.simps)
qed

end
